theory Spec2Isabelle
  imports Complex_Main
begin

section \<open>Participating media: data model\<close>

text \<open>
  The embedding follows \<^verbatim>\<open>include/mitsuba/render/medium.h\<close>. Floating-point numbers are
  idealised as real numbers. A spectrum (\<^verbatim>\<open>UnpolarizedSpectrum\<close>, a fixed-size Dr.Jit array)
  is a list of reals, one entry per spectral channel; the C++ type gives every spectrum of
  one variant the same number of channels, at least one.
\<close>

datatype MediumEventSamplingMode = Analogue | Maximum | Mean

type_synonym spectrum = "real list"

text \<open>
  A distance along a ray. The specification lets the distance of an interaction be
  \<open>+infinity\<close> when the ray misses the support of the medium.
\<close>

datatype distance = Finite real | Infinity

fun dist_le :: "distance \<Rightarrow> distance \<Rightarrow> bool" where
  "dist_le (Finite a) (Finite b) = (a \<le> b)"
| "dist_le (Finite a) Infinity = True"
| "dist_le Infinity (Finite b) = False"
| "dist_le Infinity Infinity = True"

text \<open>
  Modelled from the spec: the type \<^verbatim>\<open>MediumInteraction3f\<close> is declared outside the header;
  the fields are those of section 3 of the specification (\<open>t\<close>, the three coefficient
  spectra and the per-lane flag \<open>active\<close>). The type parameter is the type of one
  spectral component.
\<close>

record 'a MediumInteraction =
  mi_t :: distance
  sigma_s :: "'a list"
  sigma_n :: "'a list"
  sigma_t :: "'a list"
  active :: bool

text \<open>
  Modelled from the spec: \<^verbatim>\<open>SurfaceInteraction3f\<close> is declared outside the header; only its
  distance \<open>t\<close> is read.
\<close>

record SurfaceInteraction =
  si_t :: distance

text \<open>
  Modelled from the spec: \<^verbatim>\<open>Ray3f\<close> is declared outside the header; origin, direction and
  the validity interval, as in section 3 of the specification.
\<close>

record Ray =
  origin :: "real \<times> real \<times> real"
  direction :: "real \<times> real \<times> real"
  mint :: real
  maxt :: real

section \<open>Dr.Jit array operations used by the header\<close>

text \<open>
  Componentwise operations act on spectra of equal size; on lists of different length
  (which the C++ types exclude) \<open>map2\<close> stops at the shorter one.
\<close>

definition dr_abs :: "spectrum \<Rightarrow> spectrum" where
  "dr_abs xs = map abs xs"

definition dr_mul :: "spectrum \<Rightarrow> spectrum \<Rightarrow> spectrum" where
  "dr_mul xs ys = map2 (*) xs ys"

definition dr_add :: "spectrum \<Rightarrow> spectrum \<Rightarrow> spectrum" where
  "dr_add xs ys = map2 (+) xs ys"

text \<open>\<^verbatim>\<open>dr::maximum(a, s)\<close> and \<^verbatim>\<open>dr::maximum(s, a)\<close> with a scalar \<open>s\<close>: componentwise.\<close>

definition dr_maximum_as :: "spectrum \<Rightarrow> real \<Rightarrow> spectrum" where
  "dr_maximum_as xs s = map (\<lambda>x. max x s) xs"

definition dr_maximum_sa :: "real \<Rightarrow> spectrum \<Rightarrow> spectrum" where
  "dr_maximum_sa s xs = map (\<lambda>x. max s x) xs"

text \<open>\<^verbatim>\<open>s + a\<close> and \<^verbatim>\<open>s * a\<close> with a scalar \<open>s\<close>: the scalar is broadcast.\<close>

definition dr_add_sa :: "real \<Rightarrow> spectrum \<Rightarrow> spectrum" where
  "dr_add_sa s xs = map (\<lambda>x. s + x) xs"

definition dr_mul_sa :: "real \<Rightarrow> spectrum \<Rightarrow> spectrum" where
  "dr_mul_sa s xs = map (\<lambda>x. s * x) xs"

text \<open>
  Horizontal reductions over the channels. A spectrum has at least one channel; the value
  on the empty list is a convention of the model.
\<close>

fun dr_max :: "spectrum \<Rightarrow> real" where
  "dr_max [] = 0"
| "dr_max (x # xs) = fold max xs x"

definition dr_sum :: "spectrum \<Rightarrow> real" where
  "dr_sum xs = fold (+) xs 0"

definition dr_mean :: "spectrum \<Rightarrow> real" where
  "dr_mean xs = dr_sum xs / real (length xs)"

text \<open>
  A scalar returned where the signature says \<^verbatim>\<open>UnpolarizedSpectrum\<close> is converted by
  broadcasting it to every channel.
\<close>

definition broadcast :: "nat \<Rightarrow> real \<Rightarrow> spectrum" where
  "broadcast n v = replicate n v"

section \<open>Event probabilities (medium.h, lines 47 to 73)\<close>

definition medium_probabilities_analog ::
  "spectrum \<Rightarrow> real MediumInteraction \<Rightarrow> spectrum \<times> spectrum" where
  "medium_probabilities_analog radiance mi =
     (let prob_s = sigma_t mi;
          prob_n = dr_add (sigma_n mi) (dr_maximum_as radiance (dr_mean (dr_abs radiance)))
      in (prob_s, prob_n))"

definition medium_probabilities_max ::
  "spectrum \<Rightarrow> real MediumInteraction \<Rightarrow> spectrum \<Rightarrow> spectrum \<times> spectrum" where
  "medium_probabilities_max radiance mi throughput =
     (let prob_s = dr_max (dr_abs (dr_mul (sigma_t mi) throughput));
          prob_n = dr_max (dr_abs (dr_mul (sigma_n mi) throughput)) +
                   dr_max (dr_abs (dr_mul radiance (dr_maximum_sa 1 throughput)))
      in (broadcast (length (sigma_t mi)) prob_s, broadcast (length (sigma_t mi)) prob_n))"

definition medium_probabilities_mean ::
  "spectrum \<Rightarrow> real MediumInteraction \<Rightarrow> spectrum \<Rightarrow> spectrum \<times> spectrum" where
  "medium_probabilities_mean radiance mi throughput =
     (let prob_s = dr_mean (dr_abs (dr_mul (sigma_t mi) throughput));
          prob_n = dr_mean (dr_abs (dr_mul (sigma_n mi) throughput)) +
                   dr_mean (dr_abs (dr_mul radiance
                              (dr_add_sa (1/2) (dr_mul_sa (1/2) throughput))))
      in (broadcast (length (sigma_t mi)) prob_s, broadcast (length (sigma_t mi)) prob_n))"

text \<open>
  Modelled from the spec: the body of \<^verbatim>\<open>get_interaction_probabilities\<close> is not in the
  header (only its declaration, lines 41 to 45). Section 4.3 of the specification has it
  select one of the three heuristics by the sampling mode of the medium
  (\<^verbatim>\<open>m_medium_sampling_mode\<close>) and return the event probabilities \<open>(prob_s, prob_n)\<close>
  unnormalised; the specification does not say how the weights \<open>(weight_s, weight_n)\<close>
  are computed, so the model returns the probabilities only.
\<close>

definition get_interaction_probabilities ::
  "MediumEventSamplingMode \<Rightarrow> spectrum \<Rightarrow> real MediumInteraction \<Rightarrow> spectrum
     \<Rightarrow> spectrum \<times> spectrum" where
  "get_interaction_probabilities m_medium_sampling_mode radiance mi throughput =
     (case m_medium_sampling_mode of
        Analogue \<Rightarrow> medium_probabilities_analog radiance mi
      | Maximum \<Rightarrow> medium_probabilities_max radiance mi throughput
      | Mean \<Rightarrow> medium_probabilities_mean radiance mi throughput)"

section \<open>Transmittance and sampling density\<close>

text \<open>
  Modelled from the spec: the body of \<^verbatim>\<open>transmittance_eval_pdf\<close> is not in the header
  (only its declaration, lines 116 to 119). Section 4.2 of the specification: when
  \<open>mi.t \<le> si.t\<close> the transmittance is \<open>exp (- sigma_maj * mi.t)\<close> and the density is
  \<open>sigma_t mi\<close> times it; when \<open>mi.t > si.t\<close> both are \<open>exp (- sigma_maj * si.t)\<close>, per
  channel. The majorant \<open>sigma_maj\<close> comes from the pure virtual \<^verbatim>\<open>get_majorant\<close> (line 28),
  a parameter here. The specification gives no role to the mask, which is passed on to
  \<^verbatim>\<open>get_majorant\<close>. The result is \<open>None\<close> where the distance that the formula
  reads is infinite: real arithmetic has no value for \<open>exp (- sigma_maj * infinity)\<close>.
\<close>

definition attenuation :: "spectrum \<Rightarrow> real \<Rightarrow> spectrum" where
  "attenuation sigma_maj d = map (\<lambda>m. exp (- (m * d))) sigma_maj"

definition transmittance_eval_pdf ::
  "(real MediumInteraction \<Rightarrow> bool \<Rightarrow> spectrum) \<Rightarrow> real MediumInteraction \<Rightarrow> SurfaceInteraction
     \<Rightarrow> bool \<Rightarrow> (spectrum \<times> spectrum) option" where
  "transmittance_eval_pdf get_majorant mi si active_in =
     (let sigma_maj = get_majorant mi active_in in
      if dist_le (mi_t mi) (si_t si) then
        (case mi_t mi of
           Finite a \<Rightarrow>
             let transmittance = attenuation sigma_maj a;
                 pdf = dr_mul (sigma_t mi) transmittance
             in Some (transmittance, pdf)
         | Infinity \<Rightarrow> None)
      else
        (case si_t si of
           Finite b \<Rightarrow>
             let pdf = attenuation sigma_maj b;
                 transmittance = pdf
             in Some (transmittance, pdf)
         | Infinity \<Rightarrow> None))"

section \<open>Free-flight sampling\<close>

text \<open>
  A division is an operation that can fault; the model makes the fault a value, so that
  "no division by zero" is a property of the result.
\<close>

datatype fault = DivisionByZero | ChannelOutOfRange

definition checked_div :: "real \<Rightarrow> real \<Rightarrow> fault + real" where
  "checked_div a b = (if b = 0 then Inl DivisionByZero else Inr (a / b))"

text \<open>An interaction whose coefficients have not been evaluated: zero spectra, inactive.\<close>

definition no_interaction :: "nat \<Rightarrow> distance \<Rightarrow> real MediumInteraction" where
  "no_interaction channels d =
     \<lparr>mi_t = d, sigma_s = replicate channels 0, sigma_n = replicate channels 0,
      sigma_t = replicate channels 0, active = False\<rparr>"

text \<open>The point handed to the external strategies: a distance, coefficients not yet filled.\<close>

definition candidate :: "nat \<Rightarrow> real \<Rightarrow> real MediumInteraction" where
  "candidate channels d = (no_interaction channels (Finite d))\<lparr>active := True\<rparr>"

text \<open>
  Modelled from the spec: the body of \<^verbatim>\<open>sample_interaction\<close> is not in the header (only
  its declaration, lines 98 and 99). Section 4.1 of the specification, steps 1 to 5 with
  its edge case: (1) intersect the ray with the support; without overlap (or on a lane
  that is masked out) return an inactive interaction, at distance \<open>+infinity\<close>;
  (2) query the majorant and take the channel's entry as the pivot; a pivot that is zero
  or negative short-circuits to "no interaction"; (3) \<open>t = t_min - log (1 - sample) /
  sigma_maj\<close>; (4) if \<open>t\<close> exceeds \<open>t_max\<close> the lane is inactive and \<open>t_max\<close> is returned;
  (5) otherwise the coefficients are evaluated at the candidate point and the lane is
  active. The three pure virtual methods \<^verbatim>\<open>intersect_aabb\<close>, \<^verbatim>\<open>get_majorant\<close> and
  \<^verbatim>\<open>get_scattering_coefficients\<close> (lines 24 to 37) are parameters, and so is the number of
  channels of a spectrum. The sample lies in \<open>[0, 1)\<close>, so \<open>1 - sample\<close> is positive.
  The comment of the declaration (lines 94 to 96) agrees on the distance: the interaction
  returned is always valid, that is at a finite distance, except if the ray missed the
  bounding box of the medium.
\<close>

definition sample_interaction ::
  "nat \<Rightarrow> (Ray \<Rightarrow> bool \<times> real \<times> real) \<Rightarrow> (real MediumInteraction \<Rightarrow> bool \<Rightarrow> spectrum)
     \<Rightarrow> (real MediumInteraction \<Rightarrow> bool \<Rightarrow> spectrum \<times> spectrum \<times> spectrum)
     \<Rightarrow> Ray \<Rightarrow> real \<Rightarrow> nat \<Rightarrow> bool \<Rightarrow> fault + real MediumInteraction" where
  "sample_interaction channels intersect_aabb get_majorant get_scattering_coefficients
       ray sample channel active_in =
     (case intersect_aabb ray of (valid, t_min, t_max) \<Rightarrow>
        if \<not> (active_in \<and> valid) then Inr (no_interaction channels Infinity)
        else
          let sigma_maj = get_majorant (candidate channels t_min) True in
          if length sigma_maj \<le> channel then Inl ChannelOutOfRange
          else
            let m = sigma_maj ! channel in
            if m \<le> 0 then Inr (no_interaction channels (Finite t_max))
            else
              (case checked_div (ln (1 - sample)) m of
                 Inl e \<Rightarrow> Inl e
               | Inr step \<Rightarrow>
                   let t = t_min - step in
                   if t > t_max then Inr (no_interaction channels (Finite t_max))
                   else
                     (case get_scattering_coefficients (candidate channels t) True of
                        (ss, sn, st) \<Rightarrow>
                          Inr \<lparr>mi_t = Finite t, sigma_s = ss, sigma_n = sn, sigma_t = st,
                               active = True\<rparr>)))"


section \<open>The consumers of an interaction\<close>






section \<open>The event probabilities over floating-point values\<close>

text \<open>
  Whether a result can be NaN is a question about floating-point arithmetic, which the
  real numbers cannot ask. This second embedding of lines 47 to 73 keeps the special
  values of IEEE 754: a value is a finite number, one of the two infinities, or NaN. An
  operation on finite numbers overflows to an infinity when its exact result is beyond
  \<open>fmax\<close>, the largest finite value of the format; invalid operations
  (\<open>0 * infinity\<close>, \<open>infinity - infinity\<close>, \<open>0 / 0\<close>) give NaN and every operation
  propagates NaN. Rounding inside the finite range is not modelled, and the two zeros
  are one value.
\<close>

datatype fp = Num real | PosInf | NegInf | NaN

definition fp_round :: "real \<Rightarrow> real \<Rightarrow> fp" where
  "fp_round fmax x = (if fmax < x then PosInf else if x < - fmax then NegInf else Num x)"

fun fp_mul :: "real \<Rightarrow> fp \<Rightarrow> fp \<Rightarrow> fp" where
  "fp_mul fmax (Num x) (Num y) = fp_round fmax (x * y)"
| "fp_mul fmax (Num x) PosInf = (if x = 0 then NaN else if 0 < x then PosInf else NegInf)"
| "fp_mul fmax (Num x) NegInf = (if x = 0 then NaN else if 0 < x then NegInf else PosInf)"
| "fp_mul fmax PosInf (Num y) = (if y = 0 then NaN else if 0 < y then PosInf else NegInf)"
| "fp_mul fmax NegInf (Num y) = (if y = 0 then NaN else if 0 < y then NegInf else PosInf)"
| "fp_mul fmax PosInf PosInf = PosInf"
| "fp_mul fmax PosInf NegInf = NegInf"
| "fp_mul fmax NegInf PosInf = NegInf"
| "fp_mul fmax NegInf NegInf = PosInf"
| "fp_mul fmax NaN b = NaN"
| "fp_mul fmax a NaN = NaN"

fun fp_add :: "real \<Rightarrow> fp \<Rightarrow> fp \<Rightarrow> fp" where
  "fp_add fmax (Num x) (Num y) = fp_round fmax (x + y)"
| "fp_add fmax (Num x) PosInf = PosInf"
| "fp_add fmax (Num x) NegInf = NegInf"
| "fp_add fmax PosInf (Num y) = PosInf"
| "fp_add fmax NegInf (Num y) = NegInf"
| "fp_add fmax PosInf PosInf = PosInf"
| "fp_add fmax PosInf NegInf = NaN"
| "fp_add fmax NegInf PosInf = NaN"
| "fp_add fmax NegInf NegInf = NegInf"
| "fp_add fmax NaN b = NaN"
| "fp_add fmax a NaN = NaN"

text \<open>Division of a value by the number of channels, as \<^verbatim>\<open>dr::mean\<close> does after the sum.\<close>

fun fp_div_nat :: "real \<Rightarrow> fp \<Rightarrow> nat \<Rightarrow> fp" where
  "fp_div_nat fmax (Num x) n =
     (if n = 0 then (if x = 0 then NaN else if 0 < x then PosInf else NegInf)
      else fp_round fmax (x / real n))"
| "fp_div_nat fmax PosInf n = PosInf"
| "fp_div_nat fmax NegInf n = NegInf"
| "fp_div_nat fmax NaN n = NaN"

fun fp_abs :: "fp \<Rightarrow> fp" where
  "fp_abs (Num x) = Num \<bar>x\<bar>"
| "fp_abs PosInf = PosInf"
| "fp_abs NegInf = PosInf"
| "fp_abs NaN = NaN"

text \<open>The comparison \<open><\<close>: false as soon as one side is NaN.\<close>

fun fp_less :: "fp \<Rightarrow> fp \<Rightarrow> bool" where
  "fp_less (Num x) (Num y) = (x < y)"
| "fp_less (Num x) PosInf = True"
| "fp_less (Num x) NegInf = False"
| "fp_less PosInf b = False"
| "fp_less NegInf (Num y) = True"
| "fp_less NegInf PosInf = True"
| "fp_less NegInf NegInf = False"
| "fp_less a NaN = False"
| "fp_less NaN b = False"

text \<open>The comparison \<open>0 \<le> v\<close>; it is false of NaN.\<close>

fun fp_ge0 :: "fp \<Rightarrow> bool" where
  "fp_ge0 (Num x) = (0 \<le> x)"
| "fp_ge0 PosInf = True"
| "fp_ge0 NegInf = False"
| "fp_ge0 NaN = False"

text \<open>
  The maximum of two scalars, \<open>a < b ? b : a\<close> as \<^verbatim>\<open>std::max\<close> computes it. Vectorised
  backends may treat a NaN operand differently; no statement below has a NaN operand.
\<close>

definition fp_maximum :: "fp \<Rightarrow> fp \<Rightarrow> fp" where
  "fp_maximum a b = (if fp_less a b then b else a)"

fun fp_max :: "fp list \<Rightarrow> fp" where
  "fp_max [] = Num 0"
| "fp_max (x # xs) = fold (\<lambda>y acc. fp_maximum acc y) xs x"

definition fp_sum :: "real \<Rightarrow> fp list \<Rightarrow> fp" where
  "fp_sum fmax xs = fold (\<lambda>y acc. fp_add fmax acc y) xs (Num 0)"

definition fp_mean :: "real \<Rightarrow> fp list \<Rightarrow> fp" where
  "fp_mean fmax xs = fp_div_nat fmax (fp_sum fmax xs) (length xs)"

definition medium_probabilities_analog_fp ::
  "real \<Rightarrow> fp list \<Rightarrow> fp MediumInteraction \<Rightarrow> fp list \<times> fp list" where
  "medium_probabilities_analog_fp fmax radiance mi =
     (let prob_s = sigma_t mi;
          prob_n = map2 (fp_add fmax) (sigma_n mi)
                     (map (\<lambda>r. fp_maximum r (fp_mean fmax (map fp_abs radiance))) radiance)
      in (prob_s, prob_n))"

definition medium_probabilities_max_fp ::
  "real \<Rightarrow> fp list \<Rightarrow> fp MediumInteraction \<Rightarrow> fp list \<Rightarrow> fp list \<times> fp list" where
  "medium_probabilities_max_fp fmax radiance mi throughput =
     (let prob_s = fp_max (map fp_abs (map2 (fp_mul fmax) (sigma_t mi) throughput));
          prob_n = fp_add fmax
                     (fp_max (map fp_abs (map2 (fp_mul fmax) (sigma_n mi) throughput)))
                     (fp_max (map fp_abs (map2 (fp_mul fmax) radiance
                                (map (\<lambda>t. fp_maximum (Num 1) t) throughput))))
      in (replicate (length (sigma_t mi)) prob_s, replicate (length (sigma_t mi)) prob_n))"

definition medium_probabilities_mean_fp ::
  "real \<Rightarrow> fp list \<Rightarrow> fp MediumInteraction \<Rightarrow> fp list \<Rightarrow> fp list \<times> fp list" where
  "medium_probabilities_mean_fp fmax radiance mi throughput =
     (let prob_s = fp_mean fmax (map fp_abs (map2 (fp_mul fmax) (sigma_t mi) throughput));
          prob_n = fp_add fmax
                     (fp_mean fmax (map fp_abs (map2 (fp_mul fmax) (sigma_n mi) throughput)))
                     (fp_mean fmax (map fp_abs (map2 (fp_mul fmax) radiance
                        (map (\<lambda>t. fp_add fmax (Num (1/2)) (fp_mul fmax (Num (1/2)) t))
                           throughput))))
      in (replicate (length (sigma_t mi)) prob_s, replicate (length (sigma_t mi)) prob_n))"

text \<open>
  Modelled from the spec: the dispatch of \<^verbatim>\<open>get_interaction_probabilities\<close> on the
  sampling mode (section 4.3 of the specification; the body is not in the header), here
  over floating-point values.
\<close>

definition get_interaction_probabilities_fp ::
  "real \<Rightarrow> MediumEventSamplingMode \<Rightarrow> fp list \<Rightarrow> fp MediumInteraction \<Rightarrow> fp list
     \<Rightarrow> fp list \<times> fp list" where
  "get_interaction_probabilities_fp fmax m_medium_sampling_mode radiance mi throughput =
     (case m_medium_sampling_mode of
        Analogue \<Rightarrow> medium_probabilities_analog_fp fmax radiance mi
      | Maximum \<Rightarrow> medium_probabilities_max_fp fmax radiance mi throughput
      | Mean \<Rightarrow> medium_probabilities_mean_fp fmax radiance mi throughput)"

text \<open>A finite, non-negative value of the format.\<close>

fun finite_nonneg :: "real \<Rightarrow> fp \<Rightarrow> bool" where
  "finite_nonneg fmax (Num x) = (0 \<le> x \<and> x \<le> fmax)"
| "finite_nonneg fmax PosInf = False"
| "finite_nonneg fmax NegInf = False"
| "finite_nonneg fmax NaN = False"

section \<open>Properties of the reductions\<close>

lemma fold_add_real: "fold (+) xs (a::real) = a + sum_list xs"
  by (induction xs arbitrary: a) auto

lemma dr_sum_sum_list: "dr_sum xs = sum_list xs"
  by (simp add: dr_sum_def fold_add_real)

lemma dr_sum_nth: "dr_sum xs = (\<Sum>i<length xs. xs ! i)"
  by (simp add: dr_sum_sum_list sum_list_sum_nth atLeast0LessThan)

lemma dr_max_Max: "xs \<noteq> [] \<Longrightarrow> dr_max xs = Max (set xs)"
proof (cases xs)
  case Nil
  assume "xs \<noteq> []"
  with Nil show ?thesis by simp
next
  case (Cons y ys)
  have "dr_max (y # ys) = Max (set (y # ys))"
    unfolding Max.set_eq_fold by simp
  with Cons show ?thesis by simp
qed

lemma set_nth_image: "set xs = (\<lambda>i. xs ! i) ` {..<length xs}"
  by (auto simp: set_conv_nth)

lemma dr_max_nth:
  assumes "0 < N" "length xs = N"
  shows "dr_max xs = Max ((\<lambda>i. xs ! i) ` {..<N})"
proof -
  from assms have "xs \<noteq> []" by auto
  then have "dr_max xs = Max (set xs)" by (rule dr_max_Max)
  also have "set xs = (\<lambda>i. xs ! i) ` {..<N}"
    using assms(2) set_nth_image [of xs] by simp
  finally show ?thesis .
qed

lemma dr_max_abs_mul:
  assumes "0 < N" "length xs = N" "length ys = N"
  shows "dr_max (dr_abs (dr_mul xs ys)) = Max ((\<lambda>i. \<bar>xs ! i * ys ! i\<bar>) ` {..<N})"
proof -
  have len: "length (dr_abs (dr_mul xs ys)) = N"
    using assms by (simp add: dr_abs_def dr_mul_def)
  have "(\<lambda>i. dr_abs (dr_mul xs ys) ! i) ` {..<N} = (\<lambda>i. \<bar>xs ! i * ys ! i\<bar>) ` {..<N}"
    using assms by (intro image_cong) (auto simp: dr_abs_def dr_mul_def)
  with dr_max_nth [OF assms(1) len] show ?thesis by simp
qed

section \<open>Claims on the event probabilities\<close>

text \<open>
  C3. In Analog mode \<open>get_interaction_probabilities\<close> computes, channel by channel and
  without any reduction of the result, \<open>prob_s = sigma_t\<close> and
  \<open>prob_n = sigma_n + max radiance (mean |radiance|)\<close>, where the mean of the absolute
  radiance over the channels is one scalar compared against every channel.
\<close>

theorem analog_probabilities_per_channel:
  assumes "length radiance = N" "length (sigma_t mi) = N" "length (sigma_n mi) = N"
    and "get_interaction_probabilities Analogue radiance mi throughput = (prob_s, prob_n)"
  shows "length prob_s = N \<and> length prob_n = N \<and>
    (\<forall>i<N. prob_s ! i = sigma_t mi ! i \<and>
       prob_n ! i = sigma_n mi ! i +
         max (radiance ! i) ((\<Sum>j<N. \<bar>radiance ! j\<bar>) / real N))"
  using assms
  by (auto simp: get_interaction_probabilities_def medium_probabilities_analog_def Let_def
      dr_add_def dr_maximum_as_def dr_mean_def dr_abs_def dr_sum_nth)

theorem analog_probabilities_per_channel_witness:
  "get_interaction_probabilities Analogue [1, - 3]
     \<lparr>mi_t = Finite 1, sigma_s = [2, 2], sigma_n = [1, 2], sigma_t = [3, 4], active = True\<rparr>
     [5, 7] = ([3, 4], [3, 4]) \<and>
   [3, 4 :: real] ! 0 = [1, 2] ! 0 + max ([1, - 3] ! 0) ((\<Sum>j<2. \<bar>[1, - 3] ! j\<bar>) / real 2) \<and>
   [3, 4 :: real] ! 1 = [1, 2] ! 1 + max ([1, - 3] ! 1) ((\<Sum>j<2. \<bar>[1, - 3] ! j\<bar>) / real 2)"
proof -
  let ?mi = "\<lparr>mi_t = Finite 1, sigma_s = [2, 2 :: real], sigma_n = [1, 2 :: real],
              sigma_t = [3, 4 :: real], active = True\<rparr>"
  have eq: "get_interaction_probabilities Analogue [1, - 3] ?mi [5, 7] = ([3, 4], [3, 4])"
    by (simp add: get_interaction_probabilities_def medium_probabilities_analog_def Let_def
        dr_add_def dr_maximum_as_def dr_mean_def dr_abs_def dr_sum_def)
  have per_channel: "\<forall>i<2. [3, 4 :: real] ! i = sigma_t ?mi ! i \<and>
       [3, 4 :: real] ! i = sigma_n ?mi ! i +
         max ([1, - 3] ! i) ((\<Sum>j<2. \<bar>[1, - 3] ! j\<bar>) / real 2)"
    using analog_probabilities_per_channel [of "[1, - 3]" 2 ?mi "[5, 7]" "[3, 4]" "[3, 4]"] eq
    by simp
  have "[3, 4 :: real] ! 0 = sigma_n ?mi ! 0 +
         max ([1, - 3] ! 0) ((\<Sum>j<2. \<bar>[1, - 3] ! j\<bar>) / real 2)"
    using per_channel [rule_format, of 0] by simp
  moreover have "[3, 4 :: real] ! 1 = sigma_n ?mi ! 1 +
         max ([1, - 3] ! 1) ((\<Sum>j<2. \<bar>[1, - 3] ! j\<bar>) / real 2)"
    using per_channel [rule_format, of 1] by simp
  ultimately have "[3, 4 :: real] ! 0 = [1, 2] ! 0 +
         max ([1, - 3] ! 0) ((\<Sum>j<2. \<bar>[1, - 3] ! j\<bar>) / real 2) \<and>
       [3, 4 :: real] ! 1 = [1, 2] ! 1 +
         max ([1, - 3] ! 1) ((\<Sum>j<2. \<bar>[1, - 3] ! j\<bar>) / real 2)"
    by (simp only: MediumInteraction.select_convs)
  with eq show ?thesis by (rule conjI)
qed

text \<open>
  C4. In Maximum mode \<open>get_interaction_probabilities\<close> returns, in every channel, the
  scalars \<open>prob_s\<close>, the greatest \<open>|sigma_t * throughput|\<close> over the channels, and
  \<open>prob_n\<close>, the greatest \<open>|sigma_n * throughput|\<close> plus the greatest
  \<open>|radiance * max 1 throughput|\<close>.
\<close>

theorem maximum_probabilities_scalar:
  assumes "0 < N" "length radiance = N" "length throughput = N"
    "length (sigma_t mi) = N" "length (sigma_n mi) = N"
  shows "get_interaction_probabilities Maximum radiance mi throughput =
    (replicate N (Max ((\<lambda>i. \<bar>sigma_t mi ! i * throughput ! i\<bar>) ` {..<N})),
     replicate N (Max ((\<lambda>i. \<bar>sigma_n mi ! i * throughput ! i\<bar>) ` {..<N}) +
                  Max ((\<lambda>i. \<bar>radiance ! i * max 1 (throughput ! i)\<bar>) ` {..<N})))"
proof -
  have len: "length (dr_maximum_sa 1 throughput) = N"
    using assms by (simp add: dr_maximum_sa_def)
  have "(\<lambda>i. \<bar>radiance ! i * dr_maximum_sa 1 throughput ! i\<bar>) ` {..<N} =
        (\<lambda>i. \<bar>radiance ! i * max 1 (throughput ! i)\<bar>) ` {..<N}"
    using assms by (intro image_cong) (auto simp: dr_maximum_sa_def)
  with dr_max_abs_mul [OF assms(1) assms(2) len]
  have rad: "dr_max (dr_abs (dr_mul radiance (dr_maximum_sa 1 throughput))) =
        Max ((\<lambda>i. \<bar>radiance ! i * max 1 (throughput ! i)\<bar>) ` {..<N})"
    by simp
  show ?thesis
    using assms(4)
    by (simp add: get_interaction_probabilities_def medium_probabilities_max_def Let_def
        broadcast_def rad dr_max_abs_mul [OF assms(1) assms(4) assms(3)]
        dr_max_abs_mul [OF assms(1) assms(5) assms(3)])
qed

theorem maximum_probabilities_scalar_witness:
  "get_interaction_probabilities Maximum [1, 4]
     \<lparr>mi_t = Finite 1, sigma_s = [2, 2], sigma_n = [1, 2], sigma_t = [3, 4], active = True\<rparr>
     [2, 1 / 2] =
    (replicate 2 (Max ((\<lambda>i. \<bar>[3, 4] ! i * [2, 1 / 2] ! i\<bar>) ` {..<2})),
     replicate 2 (Max ((\<lambda>i. \<bar>[1, 2] ! i * [2, 1 / 2] ! i\<bar>) ` {..<2}) +
                  Max ((\<lambda>i. \<bar>[1, 4] ! i * max 1 ([2, 1 / 2] ! i)\<bar>) ` {..<2}))) \<and>
   get_interaction_probabilities Maximum [1, 4]
     \<lparr>mi_t = Finite 1, sigma_s = [2, 2], sigma_n = [1, 2], sigma_t = [3, 4], active = True\<rparr>
     [2, 1 / 2] = ([6, 6], [6, 6])"
proof -
  let ?mi = "\<lparr>mi_t = Finite 1, sigma_s = [2, 2], sigma_n = [1, 2], sigma_t = [3, 4],
              active = True\<rparr>"
  have val: "get_interaction_probabilities Maximum [1, 4] ?mi [2, 1 / 2] = ([6, 6], [6, 6])"
    by (simp add: get_interaction_probabilities_def medium_probabilities_max_def Let_def
        dr_abs_def dr_mul_def dr_maximum_sa_def broadcast_def numeral_2_eq_2)
  have form: "get_interaction_probabilities Maximum [1, 4] ?mi [2, 1 / 2] =
    (replicate 2 (Max ((\<lambda>i. \<bar>sigma_t ?mi ! i * [2, 1 / 2] ! i\<bar>) ` {..<2})),
     replicate 2 (Max ((\<lambda>i. \<bar>sigma_n ?mi ! i * [2, 1 / 2] ! i\<bar>) ` {..<2}) +
                  Max ((\<lambda>i. \<bar>[1, 4] ! i * max 1 ([2, 1 / 2] ! i)\<bar>) ` {..<2})))"
    by (rule maximum_probabilities_scalar) simp_all
  from form have "get_interaction_probabilities Maximum [1, 4] ?mi [2, 1 / 2] =
    (replicate 2 (Max ((\<lambda>i. \<bar>[3, 4] ! i * [2, 1 / 2] ! i\<bar>) ` {..<2})),
     replicate 2 (Max ((\<lambda>i. \<bar>[1, 2] ! i * [2, 1 / 2] ! i\<bar>) ` {..<2}) +
                  Max ((\<lambda>i. \<bar>[1, 4] ! i * max 1 ([2, 1 / 2] ! i)\<bar>) ` {..<2})))"
    by (simp only: MediumInteraction.select_convs)
  then show ?thesis using val by (rule conjI)
qed

text \<open>
  C5. In Mean mode \<open>get_interaction_probabilities\<close> has the structure of the Maximum mode
  with the arithmetic mean over the channels in place of the maximum, and the radiance
  weighted by \<open>0.5 + 0.5 * throughput\<close>: \<open>prob_s = mean |sigma_t * throughput|\<close> and
  \<open>prob_n = mean |sigma_n * throughput| + mean |radiance * (0.5 + 0.5 * throughput)|\<close>.
\<close>

theorem mean_probabilities_scalar:
  assumes "0 < N" "length radiance = N" "length throughput = N"
    "length (sigma_t mi) = N" "length (sigma_n mi) = N"
  shows "get_interaction_probabilities Mean radiance mi throughput =
    (replicate N ((\<Sum>i<N. \<bar>sigma_t mi ! i * throughput ! i\<bar>) / real N),
     replicate N ((\<Sum>i<N. \<bar>sigma_n mi ! i * throughput ! i\<bar>) / real N +
                  (\<Sum>i<N. \<bar>radiance ! i * (1 / 2 + 1 / 2 * throughput ! i)\<bar>) / real N))"
  using assms
  by (simp add: get_interaction_probabilities_def medium_probabilities_mean_def Let_def
      broadcast_def dr_mean_def dr_sum_nth dr_abs_def dr_mul_def dr_add_sa_def dr_mul_sa_def)

theorem mean_probabilities_scalar_witness:
  "get_interaction_probabilities Mean [1, 4]
     \<lparr>mi_t = Finite 1, sigma_s = [2, 2], sigma_n = [1, 2], sigma_t = [3, 4], active = True\<rparr>
     [2, 3] =
    (replicate 2 ((\<Sum>i<2. \<bar>[3, 4] ! i * [2, 3] ! i\<bar>) / real 2),
     replicate 2 ((\<Sum>i<2. \<bar>[1, 2] ! i * [2, 3] ! i\<bar>) / real 2 +
                  (\<Sum>i<2. \<bar>[1, 4] ! i * (1 / 2 + 1 / 2 * [2, 3] ! i)\<bar>) / real 2)) \<and>
   get_interaction_probabilities Mean [1, 4]
     \<lparr>mi_t = Finite 1, sigma_s = [2, 2], sigma_n = [1, 2], sigma_t = [3, 4], active = True\<rparr>
     [2, 3] = ([9, 9], [35 / 4, 35 / 4])"
proof -
  let ?mi = "\<lparr>mi_t = Finite 1, sigma_s = [2, 2], sigma_n = [1, 2], sigma_t = [3, 4],
              active = True\<rparr>"
  have val: "get_interaction_probabilities Mean [1, 4] ?mi [2, 3] = ([9, 9], [35 / 4, 35 / 4])"
    by (simp add: get_interaction_probabilities_def medium_probabilities_mean_def Let_def
        dr_abs_def dr_mul_def dr_add_sa_def dr_mul_sa_def dr_mean_def dr_sum_def
        broadcast_def numeral_2_eq_2)
  have form: "get_interaction_probabilities Mean [1, 4] ?mi [2, 3] =
    (replicate 2 ((\<Sum>i<2. \<bar>sigma_t ?mi ! i * [2, 3] ! i\<bar>) / real 2),
     replicate 2 ((\<Sum>i<2. \<bar>sigma_n ?mi ! i * [2, 3] ! i\<bar>) / real 2 +
                  (\<Sum>i<2. \<bar>[1, 4] ! i * (1 / 2 + 1 / 2 * [2, 3] ! i)\<bar>) / real 2))"
    by (rule mean_probabilities_scalar) simp_all
  from form have "get_interaction_probabilities Mean [1, 4] ?mi [2, 3] =
    (replicate 2 ((\<Sum>i<2. \<bar>[3, 4] ! i * [2, 3] ! i\<bar>) / real 2),
     replicate 2 ((\<Sum>i<2. \<bar>[1, 2] ! i * [2, 3] ! i\<bar>) / real 2 +
                  (\<Sum>i<2. \<bar>[1, 4] ! i * (1 / 2 + 1 / 2 * [2, 3] ! i)\<bar>) / real 2))"
    by (simp only: MediumInteraction.select_convs)
  then show ?thesis using val by (rule conjI)
qed

text \<open>
  C10. In Analog mode the result of \<open>get_interaction_probabilities\<close> does not depend on
  the throughput: any two throughput values give the same \<open>(prob_s, prob_n)\<close>.
\<close>

theorem analog_independent_of_throughput:
  "get_interaction_probabilities Analogue radiance mi throughput1 =
   get_interaction_probabilities Analogue radiance mi throughput2"
  by (simp add: get_interaction_probabilities_def)

text \<open>
  C2. As stated the claim fails: on one and the same single-channel input with throughput
  \<open>1/2\<close> the Analog mode gives \<open>prob_s = sigma_t = 1\<close> and the Maximum mode
  \<open>prob_s = |sigma_t * throughput| = 1/2\<close>, with the same \<open>prob_n = 1\<close>.
\<close>

theorem modes_differ_single_channel_counterexample:
  "get_interaction_probabilities Analogue [1]
     \<lparr>mi_t = Finite 0, sigma_s = [1], sigma_n = [0], sigma_t = [1], active = True\<rparr> [1 / 2] =
     ([1], [1]) \<and>
   get_interaction_probabilities Maximum [1]
     \<lparr>mi_t = Finite 0, sigma_s = [1], sigma_n = [0], sigma_t = [1], active = True\<rparr> [1 / 2] =
     ([1 / 2], [1]) \<and>
   get_interaction_probabilities Analogue [1]
     \<lparr>mi_t = Finite 0, sigma_s = [1], sigma_n = [0], sigma_t = [1], active = True\<rparr> [1 / 2] \<noteq>
   get_interaction_probabilities Maximum [1]
     \<lparr>mi_t = Finite 0, sigma_s = [1], sigma_n = [0], sigma_t = [1], active = True\<rparr> [1 / 2]"
  by (simp add: get_interaction_probabilities_def medium_probabilities_analog_def
      medium_probabilities_max_def dr_abs_def dr_mul_def dr_add_def dr_maximum_as_def
      dr_maximum_sa_def dr_mean_def dr_sum_def broadcast_def Let_def)

text \<open>
  C2, amended. On every single-channel input with non-negative coefficients and with
  throughput 1 the Analog, Maximum and Mean modes give the same \<open>prob_s\<close> and \<open>prob_n\<close>;
  and there is a two-channel input whose coefficients differ between the channels on
  which the three modes give three different results.
\<close>

theorem modes_agree_single_channel_unit_throughput:
  assumes "sigma_t mi = [st]" "sigma_n mi = [sn]" "0 \<le> st" "0 \<le> sn"
  shows "get_interaction_probabilities Analogue [r] mi [1] =
           get_interaction_probabilities Maximum [r] mi [1] \<and>
         get_interaction_probabilities Maximum [r] mi [1] =
           get_interaction_probabilities Mean [r] mi [1] \<and>
         (\<exists>radiance' mi' throughput'.
            length radiance' = 2 \<and> length throughput' = 2 \<and> length (sigma_s mi') = 2 \<and>
            length (sigma_n mi') = 2 \<and> length (sigma_t mi') = 2 \<and>
            sigma_t mi' ! 0 \<noteq> sigma_t mi' ! 1 \<and>
            get_interaction_probabilities Analogue radiance' mi' throughput' \<noteq>
              get_interaction_probabilities Maximum radiance' mi' throughput' \<and>
            get_interaction_probabilities Maximum radiance' mi' throughput' \<noteq>
              get_interaction_probabilities Mean radiance' mi' throughput' \<and>
            get_interaction_probabilities Analogue radiance' mi' throughput' \<noteq>
              get_interaction_probabilities Mean radiance' mi' throughput')"
proof -
  have single: "get_interaction_probabilities Analogue [r] mi [1] =
           get_interaction_probabilities Maximum [r] mi [1]"
     "get_interaction_probabilities Maximum [r] mi [1] =
           get_interaction_probabilities Mean [r] mi [1]"
    using assms
    by (simp_all add: get_interaction_probabilities_def medium_probabilities_analog_def
        medium_probabilities_max_def medium_probabilities_mean_def dr_abs_def dr_mul_def
        broadcast_def dr_add_def dr_maximum_as_def dr_maximum_sa_def dr_mean_def dr_sum_def
        dr_add_sa_def dr_mul_sa_def)
  let ?mi = "\<lparr>mi_t = Finite 0, sigma_s = [1, 2 :: real], sigma_n = [0, 0 :: real],
              sigma_t = [1, 2 :: real], active = True\<rparr>"
  have multi: "length [0, 0::real] = 2 \<and> length [1, 1::real] = 2 \<and> length (sigma_s ?mi) = 2 \<and>
            length (sigma_n ?mi) = 2 \<and> length (sigma_t ?mi) = 2 \<and>
            sigma_t ?mi ! 0 \<noteq> sigma_t ?mi ! 1 \<and>
            get_interaction_probabilities Analogue [0, 0] ?mi [1, 1] \<noteq>
              get_interaction_probabilities Maximum [0, 0] ?mi [1, 1] \<and>
            get_interaction_probabilities Maximum [0, 0] ?mi [1, 1] \<noteq>
              get_interaction_probabilities Mean [0, 0] ?mi [1, 1] \<and>
            get_interaction_probabilities Analogue [0, 0] ?mi [1, 1] \<noteq>
              get_interaction_probabilities Mean [0, 0] ?mi [1, 1]"
    by (simp add: get_interaction_probabilities_def medium_probabilities_analog_def
        medium_probabilities_max_def medium_probabilities_mean_def dr_abs_def dr_mul_def
        broadcast_def dr_mean_def dr_sum_def numeral_2_eq_2 Let_def dr_add_def
        dr_maximum_as_def dr_maximum_sa_def dr_add_sa_def dr_mul_sa_def)
  from single multi show ?thesis by blast
qed

theorem modes_agree_single_channel_unit_throughput_witness:
  "(0::real) \<le> 3 \<and> (0::real) \<le> 2 \<and>
   get_interaction_probabilities Analogue [- 5]
     \<lparr>mi_t = Finite 1, sigma_s = [1], sigma_n = [2], sigma_t = [3], active = True\<rparr> [1] =
   get_interaction_probabilities Maximum [- 5]
     \<lparr>mi_t = Finite 1, sigma_s = [1], sigma_n = [2], sigma_t = [3], active = True\<rparr> [1] \<and>
   get_interaction_probabilities Maximum [- 5]
     \<lparr>mi_t = Finite 1, sigma_s = [1], sigma_n = [2], sigma_t = [3], active = True\<rparr> [1] =
   get_interaction_probabilities Mean [- 5]
     \<lparr>mi_t = Finite 1, sigma_s = [1], sigma_n = [2], sigma_t = [3], active = True\<rparr> [1]"
  using modes_agree_single_channel_unit_throughput
    [of "\<lparr>mi_t = Finite 1, sigma_s = [1], sigma_n = [2], sigma_t = [3], active = True\<rparr>"
        3 2 "- 5"]
  by simp

section \<open>Claim on the probabilities over floating-point values\<close>

lemma fp_round_ge0: "0 \<le> x \<Longrightarrow> fp_ge0 (fp_round fmax x)"
  by (simp add: fp_round_def)

lemma fp_round_finite: "0 \<le> x \<Longrightarrow> x \<le> fmax \<Longrightarrow> finite_nonneg fmax (fp_round fmax x)"
  by (simp add: fp_round_def)

lemma finite_nonneg_ge0: "finite_nonneg fmax a \<Longrightarrow> fp_ge0 a"
  by (cases a) simp_all

lemma fp_ge0_not_NaN: "fp_ge0 a \<Longrightarrow> a \<noteq> NaN"
  by (cases a) simp_all

lemma fp_mul_ge0: "finite_nonneg fmax a \<Longrightarrow> finite_nonneg fmax b \<Longrightarrow> fp_ge0 (fp_mul fmax a b)"
  by (cases a; cases b) (simp_all add: fp_round_ge0)

lemma fp_add_ge0: "fp_ge0 a \<Longrightarrow> fp_ge0 b \<Longrightarrow> fp_ge0 (fp_add fmax a b)"
  by (cases a; cases b) (simp_all add: fp_round_ge0)

lemma fp_abs_ge0: "fp_ge0 a \<Longrightarrow> fp_ge0 (fp_abs a)"
  by (cases a) simp_all

lemma fp_maximum_ge0: "fp_ge0 a \<Longrightarrow> fp_ge0 b \<Longrightarrow> fp_ge0 (fp_maximum a b)"
  by (simp add: fp_maximum_def)

lemma fp_maximum_one_finite:
  "1 \<le> fmax \<Longrightarrow> finite_nonneg fmax t \<Longrightarrow> finite_nonneg fmax (fp_maximum (Num 1) t)"
  by (cases t) (simp_all add: fp_maximum_def)

lemma fp_half_weight_finite:
  assumes "1 \<le> fmax" "finite_nonneg fmax t"
  shows "finite_nonneg fmax (fp_add fmax (Num (1/2)) (fp_mul fmax (Num (1/2)) t))"
proof (cases t)
  case (Num x)
  with assms have x: "0 \<le> x" "x \<le> fmax" by simp_all
  then have "fp_mul fmax (Num (1/2)) t = Num (x / 2)"
    using Num by (simp add: fp_round_def)
  moreover have "1 / 2 + x / 2 \<le> fmax" using x assms(1) by simp
  ultimately show ?thesis using x by (simp add: fp_round_def)
qed (use assms in simp_all)

lemma fp_div_nat_ge0: "0 < n \<Longrightarrow> fp_ge0 a \<Longrightarrow> fp_ge0 (fp_div_nat fmax a n)"
  by (cases a) (simp_all add: fp_round_ge0)

lemma fold_add_ge0:
  "list_all fp_ge0 xs \<Longrightarrow> fp_ge0 a \<Longrightarrow> fp_ge0 (fold (\<lambda>y acc. fp_add fmax acc y) xs a)"
  by (induction xs arbitrary: a) (simp_all add: fp_add_ge0)

lemma fold_maximum_ge0:
  "list_all fp_ge0 xs \<Longrightarrow> fp_ge0 a \<Longrightarrow> fp_ge0 (fold (\<lambda>y acc. fp_maximum acc y) xs a)"
  by (induction xs arbitrary: a) (simp_all add: fp_maximum_ge0)

lemma fp_sum_ge0: "list_all fp_ge0 xs \<Longrightarrow> fp_ge0 (fp_sum fmax xs)"
  by (simp add: fp_sum_def fold_add_ge0)

lemma fp_max_ge0: "list_all fp_ge0 xs \<Longrightarrow> fp_ge0 (fp_max xs)"
  by (cases xs) (simp_all add: fold_maximum_ge0)

lemma fp_mean_ge0: "xs \<noteq> [] \<Longrightarrow> list_all fp_ge0 xs \<Longrightarrow> fp_ge0 (fp_mean fmax xs)"
  by (simp add: fp_mean_def fp_div_nat_ge0 fp_sum_ge0)

lemma abs_products_ge0:
  assumes "list_all (finite_nonneg fmax) xs" "list_all (finite_nonneg fmax) ys"
  shows "list_all fp_ge0 (map fp_abs (map2 (fp_mul fmax) xs ys))"
  unfolding list_all_iff
proof
  fix v assume "v \<in> set (map fp_abs (map2 (fp_mul fmax) xs ys))"
  then obtain a b where ab: "(a, b) \<in> set (zip xs ys)" and v: "v = fp_abs (fp_mul fmax a b)"
    by auto
  from ab have "a \<in> set xs" "b \<in> set ys"
    by (auto dest: set_zip_leftD set_zip_rightD)
  with assms have "finite_nonneg fmax a" "finite_nonneg fmax b"
    by (simp_all add: list_all_iff)
  then show "fp_ge0 v" unfolding v by (intro fp_abs_ge0 fp_mul_ge0)
qed

lemma replicate_ge0: "fp_ge0 v \<Longrightarrow> list_all (\<lambda>v. fp_ge0 v \<and> v \<noteq> NaN) (replicate n v)"
  by (simp add: list_all_iff fp_ge0_not_NaN)

lemma analog_fp_ge0:
  assumes "radiance \<noteq> []"
    "list_all (finite_nonneg fmax) radiance"
    "list_all (finite_nonneg fmax) (sigma_t mi)" "list_all (finite_nonneg fmax) (sigma_n mi)"
    "medium_probabilities_analog_fp fmax radiance mi = (prob_s, prob_n)"
  shows "list_all (\<lambda>v. fp_ge0 v \<and> v \<noteq> NaN) prob_s \<and> list_all (\<lambda>v. fp_ge0 v \<and> v \<noteq> NaN) prob_n"
proof -
  have rad: "list_all fp_ge0 radiance"
    using assms(2) by (auto simp: list_all_iff intro: finite_nonneg_ge0)
  then have "list_all fp_ge0 (map fp_abs radiance)"
    by (simp add: list_all_iff fp_abs_ge0)
  with assms(1) have m: "fp_ge0 (fp_mean fmax (map fp_abs radiance))"
    by (intro fp_mean_ge0) simp_all
  have s: "prob_s = sigma_t mi" and
    n: "prob_n = map2 (fp_add fmax) (sigma_n mi)
                     (map (\<lambda>r. fp_maximum r (fp_mean fmax (map fp_abs radiance))) radiance)"
    using assms(5) by (simp_all add: medium_probabilities_analog_fp_def Let_def)
  have "list_all (\<lambda>v. fp_ge0 v \<and> v \<noteq> NaN) prob_s"
    using assms(3) unfolding s by (auto simp: list_all_iff finite_nonneg_ge0 fp_ge0_not_NaN)
  moreover have "list_all (\<lambda>v. fp_ge0 v \<and> v \<noteq> NaN) prob_n"
    unfolding list_all_iff
  proof
    fix v assume "v \<in> set prob_n"
    then obtain a r where ar: "(a, r) \<in> set (zip (sigma_n mi) radiance)"
      and v: "v = fp_add fmax a (fp_maximum r (fp_mean fmax (map fp_abs radiance)))"
      unfolding n by (auto simp: zip_map2)
    from ar have "a \<in> set (sigma_n mi)" "r \<in> set radiance"
      by (auto dest: set_zip_leftD set_zip_rightD)
    with assms(4) rad have "fp_ge0 a" "fp_ge0 r"
      by (auto simp: list_all_iff finite_nonneg_ge0)
    with m have "fp_ge0 v" unfolding v by (intro fp_add_ge0 fp_maximum_ge0)
    then show "fp_ge0 v \<and> v \<noteq> NaN" by (simp add: fp_ge0_not_NaN)
  qed
  ultimately show ?thesis by simp
qed

lemma max_fp_ge0:
  assumes "1 \<le> fmax"
    "list_all (finite_nonneg fmax) radiance" "list_all (finite_nonneg fmax) throughput"
    "list_all (finite_nonneg fmax) (sigma_t mi)" "list_all (finite_nonneg fmax) (sigma_n mi)"
    "medium_probabilities_max_fp fmax radiance mi throughput = (prob_s, prob_n)"
  shows "list_all (\<lambda>v. fp_ge0 v \<and> v \<noteq> NaN) prob_s \<and> list_all (\<lambda>v. fp_ge0 v \<and> v \<noteq> NaN) prob_n"
proof -
  have w: "list_all (finite_nonneg fmax) (map (\<lambda>t. fp_maximum (Num 1) t) throughput)"
    using assms(1,3) by (simp add: list_all_iff fp_maximum_one_finite)
  have a: "fp_ge0 (fp_max (map fp_abs (map2 (fp_mul fmax) (sigma_t mi) throughput)))"
    by (intro fp_max_ge0 abs_products_ge0 assms)
  have b: "fp_ge0 (fp_max (map fp_abs (map2 (fp_mul fmax) (sigma_n mi) throughput)))"
    by (intro fp_max_ge0 abs_products_ge0 assms)
  have c: "fp_ge0 (fp_max (map fp_abs (map2 (fp_mul fmax) radiance
             (map (\<lambda>t. fp_maximum (Num 1) t) throughput))))"
    by (intro fp_max_ge0 abs_products_ge0 assms w)
  have ps: "prob_s = replicate (length (sigma_t mi))
              (fp_max (map fp_abs (map2 (fp_mul fmax) (sigma_t mi) throughput)))"
    and pn: "prob_n = replicate (length (sigma_t mi)) (fp_add fmax
              (fp_max (map fp_abs (map2 (fp_mul fmax) (sigma_n mi) throughput)))
              (fp_max (map fp_abs (map2 (fp_mul fmax) radiance
                 (map (\<lambda>t. fp_maximum (Num 1) t) throughput)))))"
    using assms(6) by (simp_all add: medium_probabilities_max_fp_def Let_def)
  show ?thesis unfolding ps pn by (intro conjI replicate_ge0 fp_add_ge0 a b c)
qed

lemma mean_fp_ge0:
  assumes "1 \<le> fmax" "0 < N"
    "length radiance = N" "length throughput = N"
    "length (sigma_t mi) = N" "length (sigma_n mi) = N"
    "list_all (finite_nonneg fmax) radiance" "list_all (finite_nonneg fmax) throughput"
    "list_all (finite_nonneg fmax) (sigma_t mi)" "list_all (finite_nonneg fmax) (sigma_n mi)"
    "medium_probabilities_mean_fp fmax radiance mi throughput = (prob_s, prob_n)"
  shows "list_all (\<lambda>v. fp_ge0 v \<and> v \<noteq> NaN) prob_s \<and> list_all (\<lambda>v. fp_ge0 v \<and> v \<noteq> NaN) prob_n"
proof -
  have w: "list_all (finite_nonneg fmax)
             (map (\<lambda>t. fp_add fmax (Num (1/2)) (fp_mul fmax (Num (1/2)) t)) throughput)"
    using assms(1,8) by (simp add: list_all_iff fp_half_weight_finite)
  have ne: "\<And>xs ys :: fp list. length xs = N \<Longrightarrow> length ys = N \<Longrightarrow>
              map fp_abs (map2 (fp_mul fmax) xs ys) \<noteq> []"
    using assms(2) by auto
  have a: "fp_ge0 (fp_mean fmax (map fp_abs (map2 (fp_mul fmax) (sigma_t mi) throughput)))"
    by (intro fp_mean_ge0 abs_products_ge0 assms ne)
  have b: "fp_ge0 (fp_mean fmax (map fp_abs (map2 (fp_mul fmax) (sigma_n mi) throughput)))"
    by (intro fp_mean_ge0 abs_products_ge0 assms ne)
  have c: "fp_ge0 (fp_mean fmax (map fp_abs (map2 (fp_mul fmax) radiance
             (map (\<lambda>t. fp_add fmax (Num (1/2)) (fp_mul fmax (Num (1/2)) t)) throughput))))"
    by (intro fp_mean_ge0 abs_products_ge0 assms w ne) (simp add: assms)
  have ps: "prob_s = replicate (length (sigma_t mi))
              (fp_mean fmax (map fp_abs (map2 (fp_mul fmax) (sigma_t mi) throughput)))"
    and pn: "prob_n = replicate (length (sigma_t mi)) (fp_add fmax
              (fp_mean fmax (map fp_abs (map2 (fp_mul fmax) (sigma_n mi) throughput)))
              (fp_mean fmax (map fp_abs (map2 (fp_mul fmax) radiance
                 (map (\<lambda>t. fp_add fmax (Num (1/2)) (fp_mul fmax (Num (1/2)) t)) throughput)))))"
    using assms(11) by (simp_all add: medium_probabilities_mean_fp_def Let_def)
  show ?thesis unfolding ps pn by (intro conjI replicate_ge0 fp_add_ge0 a b c)
qed

text \<open>
  C8. In each of the three sampling modes, on coefficients, radiance and throughput that
  are finite and non-negative, every channel of \<open>prob_s\<close> and of \<open>prob_n\<close> returned by
  \<open>get_interaction_probabilities\<close> is \<open>\<ge> 0\<close> and is not NaN (an overflow gives
  \<open>+infinity\<close>, never NaN).
\<close>

theorem probabilities_nonnegative_not_NaN:
  assumes "1 \<le> fmax" "0 < N"
    "length radiance = N" "length throughput = N"
    "length (sigma_t mi) = N" "length (sigma_n mi) = N"
    "list_all (finite_nonneg fmax) radiance" "list_all (finite_nonneg fmax) throughput"
    "list_all (finite_nonneg fmax) (sigma_t mi)" "list_all (finite_nonneg fmax) (sigma_n mi)"
    "get_interaction_probabilities_fp fmax mode radiance mi throughput = (prob_s, prob_n)"
  shows "list_all (\<lambda>v. fp_ge0 v \<and> v \<noteq> NaN) prob_s \<and> list_all (\<lambda>v. fp_ge0 v \<and> v \<noteq> NaN) prob_n"
proof (cases mode)
  case Analogue
  with assms(11) have "medium_probabilities_analog_fp fmax radiance mi = (prob_s, prob_n)"
    by (simp add: get_interaction_probabilities_fp_def)
  moreover from assms(2,3) have "radiance \<noteq> []" by auto
  ultimately show ?thesis using assms(7,9,10) by (intro analog_fp_ge0)
next
  case Maximum
  with assms(11) have "medium_probabilities_max_fp fmax radiance mi throughput = (prob_s, prob_n)"
    by (simp add: get_interaction_probabilities_fp_def)
  then show ?thesis using assms(1,7,8,9,10) by (intro max_fp_ge0)
next
  case Mean
  with assms(11) have "medium_probabilities_mean_fp fmax radiance mi throughput = (prob_s, prob_n)"
    by (simp add: get_interaction_probabilities_fp_def)
  then show ?thesis using assms(1-10) by (intro mean_fp_ge0)
qed

theorem probabilities_nonnegative_not_NaN_witness:
  "get_interaction_probabilities_fp 100 Mean [Num 0, Num 50]
     \<lparr>mi_t = Finite 1, sigma_s = [Num 29, Num 2], sigma_n = [Num 1, Num 2],
      sigma_t = [Num 30, Num 4], active = True\<rparr> [Num 99, Num 5] =
     ([PosInf, PosInf], [PosInf, PosInf]) \<and>
   list_all (\<lambda>v. fp_ge0 v \<and> v \<noteq> NaN) [PosInf, PosInf]"
proof -
  let ?mi = "\<lparr>mi_t = Finite 1, sigma_s = [Num 29, Num 2], sigma_n = [Num 1, Num 2],
      sigma_t = [Num 30, Num 4], active = True\<rparr>"
  have val: "get_interaction_probabilities_fp 100 Mean [Num 0, Num 50] ?mi [Num 99, Num 5] =
     ([PosInf, PosInf], [PosInf, PosInf])"
    by (simp add: get_interaction_probabilities_fp_def medium_probabilities_mean_fp_def
        Let_def fp_mean_def fp_sum_def fp_round_def numeral_2_eq_2)
  have "list_all (\<lambda>v. fp_ge0 v \<and> v \<noteq> NaN) [PosInf, PosInf] \<and>
        list_all (\<lambda>v. fp_ge0 v \<and> v \<noteq> NaN) [PosInf, PosInf]"
    by (rule probabilities_nonnegative_not_NaN
          [of 100 2 "[Num 0, Num 50]" "[Num 99, Num 5]" ?mi Mean, OF _ _ _ _ _ _ _ _ _ _ val])
       simp_all
  with val show ?thesis by simp
qed

section \<open>Claim on the transmittance and its density\<close>

text \<open>
  C1. \<open>transmittance_eval_pdf\<close> returns per-channel values such that: if
  \<open>mi.t \<le> si.t\<close> then \<open>pdf = sigma_t mi * exp (- sigma_maj * mi.t)\<close> and
  \<open>transmittance = exp (- sigma_maj * mi.t)\<close>; if \<open>mi.t > si.t\<close> then
  \<open>pdf = transmittance = exp (- sigma_maj * si.t)\<close>. In particular, when
  \<open>mi.t > si.t = L\<close> and the extinction is the constant \<open>sigma\<close>, both results are
  \<open>exp (- sigma * L)\<close>. The distance that the formula reads is finite (\<open>a\<close>,
  respectively \<open>L\<close>); \<open>mi.t\<close> may be infinite in the second and third part.
\<close>

theorem transmittance_eval_pdf_cases:
  assumes "length (get_majorant mi act) = N" "length (sigma_t mi) = N"
  shows "(mi_t mi = Finite a \<and> dist_le (mi_t mi) (si_t si) \<longrightarrow>
           (\<exists>tr pdf. transmittance_eval_pdf get_majorant mi si act = Some (tr, pdf) \<and>
              length tr = N \<and> length pdf = N \<and>
              (\<forall>i<N. pdf ! i = sigma_t mi ! i * exp (- (get_majorant mi act ! i * a)) \<and>
                      tr ! i = exp (- (get_majorant mi act ! i * a))))) \<and>
         (si_t si = Finite L \<and> \<not> dist_le (mi_t mi) (si_t si) \<longrightarrow>
           (\<exists>tr pdf. transmittance_eval_pdf get_majorant mi si act = Some (tr, pdf) \<and>
              length tr = N \<and> length pdf = N \<and>
              (\<forall>i<N. pdf ! i = exp (- (get_majorant mi act ! i * L)) \<and>
                      tr ! i = exp (- (get_majorant mi act ! i * L))))) \<and>
         (si_t si = Finite L \<and> \<not> dist_le (mi_t mi) (si_t si) \<and>
            get_majorant mi act = replicate N sigma \<longrightarrow>
            transmittance_eval_pdf get_majorant mi si act =
              Some (replicate N (exp (- (sigma * L))), replicate N (exp (- (sigma * L)))))"
  using assms
  by (auto simp: transmittance_eval_pdf_def Let_def attenuation_def dr_mul_def)

theorem transmittance_eval_pdf_cases_witness:
  "transmittance_eval_pdf (\<lambda>_ _. [1, 2])
      \<lparr>mi_t = Finite 1, sigma_s = [1, 1], sigma_n = [0, 1], sigma_t = [1, 2], active = True\<rparr>
      \<lparr>si_t = Finite 3\<rparr> True = Some ([exp (- 1), exp (- 2)], [exp (- 1), 2 * exp (- 2)]) \<and>
   transmittance_eval_pdf (\<lambda>_ _. replicate 2 2)
      \<lparr>mi_t = Infinity, sigma_s = [1, 1], sigma_n = [0, 1], sigma_t = [1, 2], active = False\<rparr>
      \<lparr>si_t = Finite 3\<rparr> True =
        Some (replicate 2 (exp (- (2 * 3))), replicate 2 (exp (- (2 * 3))))"
proof -
  let ?mi = "\<lparr>mi_t = Finite 1, sigma_s = [1, 1 :: real], sigma_n = [0, 1 :: real],
              sigma_t = [1, 2 :: real], active = True\<rparr>"
  let ?mj = "\<lparr>mi_t = Infinity, sigma_s = [1, 1 :: real], sigma_n = [0, 1 :: real],
              sigma_t = [1, 2 :: real], active = False\<rparr>"
  let ?si = "\<lparr>si_t = Finite 3\<rparr>"
  from transmittance_eval_pdf_cases [of "\<lambda>_ _. [1, 2]" ?mi True 2 1 ?si 3 0]
  obtain tr pdf where h: "transmittance_eval_pdf (\<lambda>_ _. [1, 2]) ?mi ?si True = Some (tr, pdf)"
    "length tr = 2" "length pdf = 2"
    "\<forall>i<2. pdf ! i = sigma_t ?mi ! i * exp (- ([1, 2] ! i * 1)) \<and>
            tr ! i = exp (- ([1, 2] ! i * 1))"
    by auto
  from h(4) [rule_format, of 0] h(4) [rule_format, of 1]
  have "pdf ! 0 = exp (- 1)" "pdf ! 1 = 2 * exp (- 2)" "tr ! 0 = exp (- 1)" "tr ! 1 = exp (- 2)"
    by simp_all
  with h(2,3) have "tr = [exp (- 1), exp (- 2)]" "pdf = [exp (- 1), 2 * exp (- 2)]"
    by (simp_all add: list_eq_iff_nth_eq less_2_cases_iff)
  with h(1) have one: "transmittance_eval_pdf (\<lambda>_ _. [1, 2]) ?mi ?si True =
      Some ([exp (- 1), exp (- 2)], [exp (- 1), 2 * exp (- 2)])" by simp
  from transmittance_eval_pdf_cases [of "\<lambda>_ _. replicate 2 2" ?mj True 2 0 ?si 3 2]
  have two: "transmittance_eval_pdf (\<lambda>_ _. replicate 2 2) ?mj ?si True =
      Some (replicate 2 (exp (- (2 * 3))), replicate 2 (exp (- (2 * 3))))" by simp
  from one two show ?thesis by simp
qed

section \<open>Claims on the free-flight sampler\<close>

lemma checked_div_pos: "0 < m \<Longrightarrow> checked_div a m = Inr (a / m)"
  by (simp add: checked_div_def)

lemma sample_interaction_miss:
  assumes "intersect_aabb ray = (valid, t_min, t_max)" "\<not> (active_in \<and> valid)"
  shows "sample_interaction channels intersect_aabb get_majorant get_scattering_coefficients
           ray sample channel active_in = Inr (no_interaction channels Infinity)"
  using assms by (simp add: sample_interaction_def)

lemma sample_interaction_hit:
  assumes "intersect_aabb ray = (True, t_min, t_max)" "active_in"
  shows "sample_interaction channels intersect_aabb get_majorant get_scattering_coefficients
           ray sample channel active_in =
         (let sigma_maj = get_majorant (candidate channels t_min) True in
          if length sigma_maj \<le> channel then Inl ChannelOutOfRange
          else if sigma_maj ! channel \<le> 0 then Inr (no_interaction channels (Finite t_max))
          else if t_max < t_min - ln (1 - sample) / (sigma_maj ! channel)
            then Inr (no_interaction channels (Finite t_max))
          else
            (case get_scattering_coefficients
                    (candidate channels (t_min - ln (1 - sample) / (sigma_maj ! channel))) True of
               (ss, sn, st) \<Rightarrow>
                 Inr \<lparr>mi_t = Finite (t_min - ln (1 - sample) / (sigma_maj ! channel)),
                      sigma_s = ss, sigma_n = sn, sigma_t = st, active = True\<rparr>))"
  using assms by (simp add: sample_interaction_def Let_def checked_div_pos not_le)

lemma no_interaction_fields:
  "active (no_interaction channels d) = False"
  "mi_t (no_interaction channels d) = d"
  "sigma_s (no_interaction channels d) = replicate channels 0"
  "sigma_n (no_interaction channels d) = replicate channels 0"
  "sigma_t (no_interaction channels d) = replicate channels 0"
  by (simp_all add: no_interaction_def)

text \<open>
  C6. With a zero or negative majorant \<open>sample_interaction\<close> returns an interaction that
  means "no interaction" (the lane is inactive), and no call of \<open>sample_interaction\<close>
  ever divides by a zero majorant: the short-circuit comes before the step
  \<open>t_min - log (1 - sample) / sigma_maj\<close>.
\<close>

theorem zero_majorant_short_circuits:
  "sample_interaction channels intersect_aabb get_majorant get_scattering_coefficients
      ray sample channel active_in \<noteq> Inl DivisionByZero \<and>
   (intersect_aabb ray = (valid, t_min, t_max) \<and>
    channel < length (get_majorant (candidate channels t_min) True) \<and>
    get_majorant (candidate channels t_min) True ! channel \<le> 0 \<longrightarrow>
    sample_interaction channels intersect_aabb get_majorant get_scattering_coefficients
        ray sample channel active_in =
      Inr (no_interaction channels (if active_in \<and> valid then Finite t_max else Infinity)) \<and>
    \<not> active (no_interaction channels (if active_in \<and> valid then Finite t_max else Infinity)))"
proof -
  obtain v a b where its: "intersect_aabb ray = (v, a, b)"
    by (cases "intersect_aabb ray") auto
  show ?thesis
  proof (cases "active_in \<and> v")
    case False
    with its show ?thesis
      by (auto simp: sample_interaction_miss [where intersect_aabb = intersect_aabb and ray = ray, OF its] no_interaction_fields)
  next
    case True
    then have its': "intersect_aabb ray = (True, a, b)" and act: "active_in"
      using its by simp_all
    show ?thesis
      unfolding sample_interaction_hit [where intersect_aabb = intersect_aabb and ray = ray, OF its' act] Let_def
      using its' act
      by (auto simp: no_interaction_fields split: prod.splits)
  qed
qed

theorem zero_majorant_short_circuits_witness:
  "sample_interaction 1 (\<lambda>_. (True, 0, 10)) (\<lambda>_ _. [0]) (\<lambda>_ _. ([1], [0], [1]))
      \<lparr>origin = (0, 0, 0), direction = (0, 0, 1), mint = 0, maxt = 100\<rparr> (1 / 2) 0 True =
     Inr (no_interaction 1 (Finite 10)) \<and>
   \<not> active (no_interaction 1 (Finite 10) :: real MediumInteraction)"
  using zero_majorant_short_circuits
    [of 1 "\<lambda>_. (True, 0, 10)" "\<lambda>_ _. [0]" "\<lambda>_ _. ([1], [0], [1])"
        "\<lparr>origin = (0, 0, 0), direction = (0, 0, 1), mint = 0, maxt = 100\<rparr>" "1 / 2" 0 True
        True 0 10]
  by simp

text \<open>
  C7. When the sampled free-flight distance exceeds the exit distance \<open>t_max\<close> of the
  support, \<open>sample_interaction\<close> returns an inactive interaction whose distance is
  \<open>t_max\<close>; when the ray does not overlap the support of the medium it returns an
  interaction with \<open>active = false\<close>.
\<close>

theorem exit_returns_t_max_inactive:
  "(intersect_aabb ray = (True, t_min, t_max) \<and> active_in \<and>
    channel < length (get_majorant (candidate channels t_min) True) \<and>
    0 < get_majorant (candidate channels t_min) True ! channel \<and>
    t_max < t_min - ln (1 - sample) / (get_majorant (candidate channels t_min) True ! channel)
    \<longrightarrow>
    (\<exists>mi. sample_interaction channels intersect_aabb get_majorant get_scattering_coefficients
             ray sample channel active_in = Inr mi \<and> \<not> active mi \<and> mi_t mi = Finite t_max)) \<and>
   (intersect_aabb ray = (False, t_min, t_max) \<longrightarrow>
    (\<exists>mi. sample_interaction channels intersect_aabb get_majorant get_scattering_coefficients
             ray sample channel active_in = Inr mi \<and> \<not> active mi))"
proof (intro conjI impI)
  assume h: "intersect_aabb ray = (True, t_min, t_max) \<and> active_in \<and>
    channel < length (get_majorant (candidate channels t_min) True) \<and>
    0 < get_majorant (candidate channels t_min) True ! channel \<and>
    t_max < t_min - ln (1 - sample) / (get_majorant (candidate channels t_min) True ! channel)"
  then have its: "intersect_aabb ray = (True, t_min, t_max)" and act: "active_in" by simp_all
  have "sample_interaction channels intersect_aabb get_majorant get_scattering_coefficients
          ray sample channel active_in = Inr (no_interaction channels (Finite t_max))"
    unfolding sample_interaction_hit [where intersect_aabb = intersect_aabb and ray = ray, OF its act] Let_def using h by simp
  then show "\<exists>mi. sample_interaction channels intersect_aabb get_majorant
      get_scattering_coefficients ray sample channel active_in = Inr mi \<and> \<not> active mi \<and>
      mi_t mi = Finite t_max"
    by (simp add: no_interaction_fields)
next
  assume its: "intersect_aabb ray = (False, t_min, t_max)"
  have "sample_interaction channels intersect_aabb get_majorant get_scattering_coefficients
          ray sample channel active_in = Inr (no_interaction channels Infinity)"
    by (rule sample_interaction_miss [where intersect_aabb = intersect_aabb and ray = ray, OF its]) simp
  then show "\<exists>mi. sample_interaction channels intersect_aabb get_majorant
      get_scattering_coefficients ray sample channel active_in = Inr mi \<and> \<not> active mi"
    by (simp add: no_interaction_fields)
qed

theorem exit_returns_t_max_inactive_witness:
  "(10 :: real) < 0 - ln (1 - (1 - exp (- 20))) / ([1] ! 0) \<and>
   (\<exists>mi. sample_interaction 1 (\<lambda>_. (True, 0, 10)) (\<lambda>_ _. [1]) (\<lambda>_ _. ([1], [0], [1]))
      \<lparr>origin = (0, 0, 0), direction = (0, 0, 1), mint = 0, maxt = 100\<rparr>
      (1 - exp (- 20)) 0 True = Inr mi \<and> \<not> active mi \<and> mi_t mi = Finite 10) \<and>
   (\<exists>mi. sample_interaction 1 (\<lambda>_. (False, 0, 0)) (\<lambda>_ _. [1]) (\<lambda>_ _. ([1], [0], [1]))
      \<lparr>origin = (0, 0, 0), direction = (0, 0, 1), mint = 0, maxt = 100\<rparr>
      (1 / 2) 0 True = Inr mi \<and> \<not> active mi)"
proof -
  let ?ray = "\<lparr>origin = (0, 0, 0), direction = (0, 0, 1), mint = 0, maxt = 100\<rparr>"
  have far: "(10 :: real) < 0 - ln (1 - (1 - exp (- 20))) / ([1] ! 0)" by simp
  from exit_returns_t_max_inactive
    [of "\<lambda>_. (True, 0, 10)" ?ray 0 10 True 0 "\<lambda>_ _. [1]" 1 "1 - exp (- 20)"
        "\<lambda>_ _. ([1], [0], [1])"] far
  have one: "\<exists>mi. sample_interaction 1 (\<lambda>_. (True, 0, 10)) (\<lambda>_ _. [1]) (\<lambda>_ _. ([1], [0], [1]))
      ?ray (1 - exp (- 20)) 0 True = Inr mi \<and> \<not> active mi \<and> mi_t mi = Finite 10"
    by simp
  from exit_returns_t_max_inactive
    [of "\<lambda>_. (False, 0, 0)" ?ray 0 0 True 0 "\<lambda>_ _. [1]" 1 "1 / 2" "\<lambda>_ _. ([1], [0], [1])"]
  have two: "\<exists>mi. sample_interaction 1 (\<lambda>_. (False, 0, 0)) (\<lambda>_ _. [1]) (\<lambda>_ _. ([1], [0], [1]))
      ?ray (1 / 2) 0 True = Inr mi \<and> \<not> active mi"
    by simp
  from far one two show ?thesis by simp
qed








end
